theory Spec2Isabelle
  imports Main "HOL-Library.Code_Target_Numeral"
begin

section \<open>JavaScript values\<close>

text \<open>
  The server is JavaScript: the token cache, the parsed response bodies and the tool
  arguments are dynamically typed values. \<open>jsval\<close> has the values that JSON can carry
  and \<open>undefined\<close>. An object is the list of its own properties, one entry per key (as
  \<open>JSON.parse\<close> builds it); a property read takes the entry of that key.

  A number in a JSON text is written \<open>JNum n\<close> for the integer \<open>n\<close> it denotes; the
  program works with the double that \<open>JSON.parse\<close> makes of it (see \<open>round_double\<close>
  below). JSON numbers with a fraction are outside the model.
\<close>

datatype jsval =
    JUndefined
  | JNull
  | JBool bool
  | JNum int
  | JStr string
  | JArr "jsval list"
  | JObj "(string \<times> jsval) list"

text \<open>
  What a rejected promise or a \<open>throw\<close> carries. \<open>Error msg\<close> is \<open>new Error(msg)\<close>;
  \<open>TypeError\<close> is a property read on \<open>null\<close>/\<open>undefined\<close> or a call of something that
  is not a function; \<open>FetchFailed\<close> is \<open>fetch\<close> rejecting (no response at all);
  \<open>BodyUnreadable\<close> is \<open>res.json()\<close> rejecting (the body is not JSON);
  \<open>InvalidInput\<close> is the host protocol's refusal of arguments that violate a tool's
  declared input schema.
\<close>

datatype error =
    Error string
  | TypeError
  | FetchFailed
  | BodyUnreadable
  | InvalidInput

text \<open>The conditions of \<open>if (v)\<close>, \<open>!v\<close> and \<open>a || b\<close>.\<close>

fun truthy :: "jsval \<Rightarrow> bool" where
  "truthy JUndefined = False"
| "truthy JNull = False"
| "truthy (JBool b) = b"
| "truthy (JNum n) = (n \<noteq> 0)"
| "truthy (JStr s) = (s \<noteq> [])"
| "truthy (JArr xs) = True"
| "truthy (JObj kvs) = True"

text \<open>\<open>a || b\<close> and \<open>a ?? b\<close>.\<close>

definition js_or :: "jsval \<Rightarrow> jsval \<Rightarrow> jsval" where
  "js_or a b = (if truthy a then a else b)"

definition nullish :: "jsval \<Rightarrow> jsval \<Rightarrow> jsval" where
  "nullish a b = (if a = JUndefined \<or> a = JNull then b else a)"

text \<open>
  \<open>v.k\<close> for the keys the program reads (none of them is a built-in property of a
  string, a number or an array): a \<open>TypeError\<close> on \<open>null\<close> and \<open>undefined\<close>, the
  entry of an object, \<open>undefined\<close> everywhere else. \<open>v?.k\<close> answers \<open>undefined\<close> where
  \<open>v.k\<close> throws.
\<close>

fun get_prop :: "jsval \<Rightarrow> string \<Rightarrow> error + jsval" where
  "get_prop JUndefined k = Inl TypeError"
| "get_prop JNull k = Inl TypeError"
| "get_prop (JObj kvs) k = (case map_of kvs k of None \<Rightarrow> Inr JUndefined | Some v \<Rightarrow> Inr v)"
| "get_prop v k = Inr JUndefined"

definition get_prop_opt :: "jsval \<Rightarrow> string \<Rightarrow> jsval" where
  "get_prop_opt v k = (case get_prop v k of Inl e \<Rightarrow> JUndefined | Inr x \<Rightarrow> x)"

subsection \<open>Numbers\<close>

text \<open>
  The numbers the program computes with are doubles. The model has the doubles whose value
  is an integer (\<open>Fin\<close>), the two infinities and \<open>NaN\<close>; epoch milliseconds, lifetimes
  in seconds, status codes and list positions are of this kind. Every integer of magnitude
  up to \<open>2^53\<close> is a double; beyond that a double has 53 significant bits.
\<close>

datatype jsnum = NaN | PInf | NInf | Fin int

function bit_length :: "nat \<Rightarrow> nat" where
  "bit_length n = (if n = 0 then 0 else Suc (bit_length (n div 2)))"
  by pat_completeness auto
termination
  by (relation "measure id") auto

declare bit_length.simps [simp del]

text \<open>
  The double nearest to an integer, ties going to the even significand, and an infinity
  from \<open>2^1024\<close> on: what \<open>JSON.parse\<close> makes of an integer literal, and how the result
  of an arithmetic operation on integers is stored.
\<close>

definition round_double :: "int \<Rightarrow> jsnum" where
  "round_double x =
     (if \<bar>x\<bar> \<le> 2 ^ 53 then Fin x
      else
        let a = nat \<bar>x\<bar>;
            q = 2 ^ (bit_length a - 53);
            d = a div q;
            r = a mod q;
            m = (if q < 2 * r \<or> (q = 2 * r \<and> odd d) then d + 1 else d)
        in if 2 ^ 1024 \<le> m * q then (if x < 0 then NInf else PInf)
           else Fin (if x < 0 then - int (m * q) else int (m * q)))"

text \<open>\<open>a + b\<close> and \<open>a * b\<close> on numbers.\<close>

fun js_plus :: "jsnum \<Rightarrow> jsnum \<Rightarrow> jsnum" where
  "js_plus (Fin a) (Fin b) = round_double (a + b)"
| "js_plus NaN b = NaN"
| "js_plus a NaN = NaN"
| "js_plus PInf NInf = NaN"
| "js_plus NInf PInf = NaN"
| "js_plus PInf b = PInf"
| "js_plus NInf b = NInf"
| "js_plus a PInf = PInf"
| "js_plus a NInf = NInf"

fun js_times :: "jsnum \<Rightarrow> jsnum \<Rightarrow> jsnum" where
  "js_times (Fin a) (Fin b) = round_double (a * b)"
| "js_times NaN b = NaN"
| "js_times a NaN = NaN"
| "js_times PInf PInf = PInf"
| "js_times PInf NInf = NInf"
| "js_times NInf PInf = NInf"
| "js_times NInf NInf = PInf"
| "js_times PInf (Fin b) = (if b = 0 then NaN else if 0 < b then PInf else NInf)"
| "js_times NInf (Fin b) = (if b = 0 then NaN else if 0 < b then NInf else PInf)"
| "js_times (Fin a) PInf = (if a = 0 then NaN else if 0 < a then PInf else NInf)"
| "js_times (Fin a) NInf = (if a = 0 then NaN else if 0 < a then NInf else PInf)"

text \<open>
  \<open>a - b\<close>. The program subtracts once, in the test \<open>now < ACCESS_TOKEN_EXP - 30_000\<close>,
  and only compares the difference with a clock reading. The model keeps the difference of
  two integers exact; rounding it to a double does not change the outcome of a comparison
  with an integer of magnitude below \<open>2^53\<close>, which every clock reading is (see
  \<open>js_less_round_double\<close>).
\<close>

fun js_minus :: "jsnum \<Rightarrow> jsnum \<Rightarrow> jsnum" where
  "js_minus (Fin a) (Fin b) = Fin (a - b)"
| "js_minus NaN b = NaN"
| "js_minus a NaN = NaN"
| "js_minus PInf PInf = NaN"
| "js_minus NInf NInf = NaN"
| "js_minus PInf b = PInf"
| "js_minus NInf b = NInf"
| "js_minus a PInf = NInf"
| "js_minus a NInf = PInf"

text \<open>\<open>a < b\<close>: false whenever one side is \<open>NaN\<close>.\<close>

fun js_less :: "jsnum \<Rightarrow> jsnum \<Rightarrow> bool" where
  "js_less (Fin a) (Fin b) = (a < b)"
| "js_less NaN b = False"
| "js_less a NaN = False"
| "js_less PInf b = False"
| "js_less a NInf = False"
| "js_less NInf b = True"
| "js_less a PInf = True"

subsection \<open>Text\<close>

definition digit_char :: "nat \<Rightarrow> char" where
  "digit_char d = ''0123456789'' ! (d mod 10)"

text \<open>The decimal digits of a natural number.\<close>

function decimal :: "nat \<Rightarrow> string" where
  "decimal n = (if n < 10 then [digit_char n] else decimal (n div 10) @ [digit_char (n mod 10)])"
  by pat_completeness auto
termination
  by (relation "measure id") auto

declare decimal.simps [simp del]

text \<open>
  The text of a number (\<open>Number::toString\<close>) writes the shortest digit string \<open>s\<close>, of
  \<open>k\<close> digits, such that \<open>s * 10^(n - k)\<close> is read back as the same double; of several
  such \<open>s\<close> the one nearest to the number, of two equally near ones the even one.
  \<open>shortest_digits v n k\<close> looks for \<open>s\<close> among the \<open>k\<close>-digit prefixes of the
  \<open>n\<close>-digit number \<open>v\<close>, rounded down and up.
\<close>

definition shortest_digits :: "nat \<Rightarrow> nat \<Rightarrow> nat \<Rightarrow> nat option" where
  "shortest_digits v n k =
     (let u = 10 ^ (n - k);
          lo = v div u;
          hi = lo + 1;
          fits = (\<lambda>s. round_double (int (s * u)) = round_double (int v))
      in if fits lo \<and> fits hi then
           (if v - lo * u < hi * u - v then Some lo
            else if hi * u - v < v - lo * u then Some hi
            else Some (if even lo then lo else hi))
         else if fits lo then Some lo
         else if fits hi then Some hi
         else None)"

text \<open>
  The text of a natural number. Up to \<open>2^53\<close> it is the decimal digits. Beyond, it is
  the shortest digits followed by zeros while the number has at most 21 digits, and the
  exponent form \<open>d.ddde+x\<close> from 22 digits on.
\<close>

definition show_nat :: "nat \<Rightarrow> string" where
  "show_nat v =
     (if v \<le> 2 ^ 53 then decimal v
      else
        let n0 = length (decimal v);
            found = List.map_filter
                      (\<lambda>k. map_option (\<lambda>s. (s, k)) (shortest_digits v n0 k)) [1..<Suc n0];
            (s, k, n) = (case found of
                           [] \<Rightarrow> (v, n0, n0)
                         | (s, k) # rest \<Rightarrow> if s = 10 ^ k then (1, 1, Suc n0) else (s, k, n0))
        in if n \<le> 21 then decimal s @ replicate (n - k) (CHR ''0'')
           else
             (case decimal s of
                [] \<Rightarrow> []
              | c # cs \<Rightarrow> c # (if cs = [] then [] else CHR ''.'' # cs) @ ''e+'' @ decimal (n - 1)))"

definition show_int :: "int \<Rightarrow> string" where
  "show_int i = (if i < 0 then ''-'' @ show_nat (nat (- i)) else show_nat (nat i))"

definition show_number :: "jsnum \<Rightarrow> string" where
  "show_number x =
     (case x of
        NaN \<Rightarrow> ''NaN''
      | PInf \<Rightarrow> ''Infinity''
      | NInf \<Rightarrow> ''-Infinity''
      | Fin i \<Rightarrow> show_int i)"

text \<open>\<open>lines.join(sep)\<close> on a list of strings.\<close>

fun join :: "string \<Rightarrow> string list \<Rightarrow> string" where
  "join sep [] = []"
| "join sep [x] = x"
| "join sep (x # y # ys) = x @ sep @ join sep (y # ys)"

text \<open>
  What a template literal puts in place of \<open>v\<close>. An array prints its elements
  separated by commas, \<open>null\<close> and \<open>undefined\<close> elements as nothing.
\<close>

fun to_string :: "jsval \<Rightarrow> string" where
  "to_string JUndefined = ''undefined''"
| "to_string JNull = ''null''"
| "to_string (JBool b) = (if b then ''true'' else ''false'')"
| "to_string (JNum n) = show_number (round_double n)"
| "to_string (JStr s) = s"
| "to_string (JArr xs) =
     join '','' (map (\<lambda>x. if x = JUndefined \<or> x = JNull then [] else to_string x) xs)"
| "to_string (JObj kvs) = ''[object Object]''"

text \<open>\<open>xs.join(sep)\<close> on a list of arbitrary values.\<close>

definition js_join :: "string \<Rightarrow> jsval list \<Rightarrow> string" where
  "js_join sep xs =
     join sep (map (\<lambda>x. if x = JUndefined \<or> x = JNull then [] else to_string x) xs)"

definition nl :: string where
  "nl = [CHR 0x0A]"

text \<open>
  \<open>Number(v)\<close>. The reading of a string as a number (\<open>s2n\<close>) is the language's own and is
  taken as a parameter; an array is read through its text, an object is \<open>NaN\<close>.
\<close>

fun Number_js :: "(string \<Rightarrow> jsnum) \<Rightarrow> jsval \<Rightarrow> jsnum" where
  "Number_js s2n JUndefined = NaN"
| "Number_js s2n JNull = Fin 0"
| "Number_js s2n (JBool b) = Fin (if b then 1 else 0)"
| "Number_js s2n (JNum n) = round_double n"
| "Number_js s2n (JStr s) = s2n s"
| "Number_js s2n (JArr xs) = s2n (to_string (JArr xs))"
| "Number_js s2n (JObj kvs) = NaN"

section \<open>The outside world\<close>

text \<open>
  \<open>process.env\<close>, read at start and never written. \<open>env(k, d)\<close> is the source's helper
  \<open>process.env[k] ?? d\<close>.
\<close>

type_synonym process_env = "string \<Rightarrow> string option"

definition env :: "process_env \<Rightarrow> string \<Rightarrow> jsval \<Rightarrow> jsval" where
  "env pe k d = (case pe k of None \<Rightarrow> d | Some v \<Rightarrow> JStr v)"

text \<open>
  An HTTP request as the program hands it to \<open>fetch\<close>, and what comes back. Of a
  response the program reads the status, \<open>res.text()\<close> and \<open>res.json()\<close>; each of the two
  body reads can reject (\<open>None\<close>). \<open>res.ok\<close> is the status lying in 200..299.
\<close>

datatype payload = NoBody | Form "(string \<times> string) list" | Json jsval

record request =
  url :: string
  http_method :: string
  headers :: "(string \<times> string) list"
  body :: payload

record response =
  status :: nat
  body_text :: "string option"
  body_json :: "jsval option"

datatype reply = Rejected | Responded response

definition ok :: "response \<Rightarrow> bool" where
  "ok r = (200 \<le> status r \<and> status r \<le> 299)"

text \<open>
  Everything the server cannot decide itself: the clock (\<open>date_now k\<close> is what the
  \<open>k\<close>-th call of \<open>Date.now()\<close> returns), the network (\<open>fetch_reply k\<close> is the outcome of
  the \<open>k\<close>-th call of \<open>fetch\<close>), and three library functions.
\<close>

record platform =
  date_now :: "nat \<Rightarrow> int"
  fetch_reply :: "nat \<Rightarrow> reply"
  string_to_number :: "string \<Rightarrow> jsnum"
  base64 :: "string \<Rightarrow> string"
  encodeURIComponent :: "string \<Rightarrow> string"

section \<open>Normal mode: the token store\<close>

text \<open>
  The two module variables \<open>ACCESS_TOKEN\<close> and \<open>ACCESS_TOKEN_EXP\<close>, with the requests
  issued so far (oldest first) and the number of clock readings taken.
\<close>

record world =
  ACCESS_TOKEN :: jsval
  ACCESS_TOKEN_EXP :: jsnum
  sent :: "request list"
  clock_reads :: nat

definition initial_world :: "process_env \<Rightarrow> world" where
  "initial_world pe =
     \<lparr>ACCESS_TOKEN = js_or (env pe ''SPOTIFY_ACCESS_TOKEN'' JUndefined) JNull,
      ACCESS_TOKEN_EXP = Fin 0,
      sent = [],
      clock_reads = 0\<rparr>"

definition Date_now :: "platform \<Rightarrow> world \<Rightarrow> int \<times> world" where
  "Date_now p w = (date_now p (clock_reads w), w\<lparr>clock_reads := Suc (clock_reads w)\<rparr>)"

definition fetch :: "platform \<Rightarrow> request \<Rightarrow> world \<Rightarrow> reply \<times> world" where
  "fetch p rq w = (fetch_reply p (length (sent w)), w\<lparr>sent := sent w @ [rq]\<rparr>)"

text \<open>
  The three messages the normal mode throws, under the names the specification gives the
  failures. (The sources hold an earlier copy of the server without the setup mode; it
  differs from \<open>server.js\<close> in layout and in the wording of the second message only.)
\<close>

definition TokenRefreshFailed :: "nat \<Rightarrow> string \<Rightarrow> error" where
  "TokenRefreshFailed st txt =
     Error (''Spotify token refresh failed: '' @ show_nat st @ '' '' @ txt)"

definition NoCredentialsAvailable :: error where
  "NoCredentialsAvailable =
     Error ''No Spotify access token. Provide SPOTIFY_ACCESS_TOKEN or set refresh env vars.''"

definition UpstreamApiError :: "nat \<Rightarrow> string \<Rightarrow> error" where
  "UpstreamApiError st txt = Error (''Spotify API error: '' @ show_nat st @ '' '' @ txt)"

text \<open>\<open>await res.text().catch(() => "")\<close>.\<close>

definition text_or_empty :: "response \<Rightarrow> string" where
  "text_or_empty r = (case body_text r of None \<Rightarrow> [] | Some t \<Rightarrow> t)"

text \<open>The first line of \<open>refreshAccessTokenIfNeeded\<close>: is the cached token still good?\<close>

definition cache_is_fresh :: "int \<Rightarrow> world \<Rightarrow> bool" where
  "cache_is_fresh now w =
     (truthy (ACCESS_TOKEN w) \<and> js_less (Fin now) (js_minus (ACCESS_TOKEN_EXP w) (Fin 30000)))"

text \<open>The refresh request: form body, HTTP Basic authentication from client id and secret.\<close>

definition refresh_request :: "platform \<Rightarrow> jsval \<Rightarrow> jsval \<Rightarrow> jsval \<Rightarrow> request" where
  "refresh_request p clientId clientSecret refreshToken =
     \<lparr>url = ''https://accounts.spotify.com/api/token'',
      http_method = ''POST'',
      headers =
        [(''Authorization'',
          ''Basic '' @ base64 p (to_string clientId @ '':'' @ to_string clientSecret)),
         (''Content-Type'', ''application/x-www-form-urlencoded'')],
      body = Form [(''grant_type'', ''refresh_token''),
                   (''refresh_token'', to_string refreshToken)]\<rparr>"

definition refreshAccessTokenIfNeeded ::
  "platform \<Rightarrow> process_env \<Rightarrow> world \<Rightarrow> (error + jsval) \<times> world" where
  "refreshAccessTokenIfNeeded p pe w0 =
     (let (now, w1) = Date_now p w0 in
      if cache_is_fresh now w1 then (Inr (ACCESS_TOKEN w1), w1)
      else
        let clientId = env pe ''SPOTIFY_CLIENT_ID'' JUndefined;
            clientSecret = env pe ''SPOTIFY_CLIENT_SECRET'' JUndefined;
            refreshToken = env pe ''SPOTIFY_REFRESH_TOKEN'' JUndefined
        in
        if \<not> truthy clientId \<or> \<not> truthy clientSecret \<or> \<not> truthy refreshToken
        then (Inr (ACCESS_TOKEN w1), w1)
        else
          let (res, w2) = fetch p (refresh_request p clientId clientSecret refreshToken) w1 in
          (case res of
            Rejected \<Rightarrow> (Inl FetchFailed, w2)
          | Responded r \<Rightarrow>
              if \<not> ok r then (Inl (TokenRefreshFailed (status r) (text_or_empty r)), w2)
              else
                (case body_json r of
                   None \<Rightarrow> (Inl BodyUnreadable, w2)
                 | Some data \<Rightarrow>
                     (case get_prop data ''access_token'' of
                        Inl e \<Rightarrow> (Inl e, w2)
                      | Inr tok \<Rightarrow>
                          let w3 = w2\<lparr>ACCESS_TOKEN := tok\<rparr>;
                              expiresInSec =
                                Number_js (string_to_number p)
                                  (nullish (get_prop_opt data ''expires_in'') (JNum 3600));
                              (now2, w4) = Date_now p w3;
                              w5 = w4\<lparr>ACCESS_TOKEN_EXP :=
                                          js_plus (Fin now2) (js_times expiresInSec (Fin 1000))\<rparr>
                          in (Inr (ACCESS_TOKEN w5), w5)))))"

section \<open>Normal mode: the authenticated request client\<close>

definition api_request :: "jsval \<Rightarrow> string \<Rightarrow> string \<Rightarrow> jsval \<Rightarrow> request" where
  "api_request token endpoint m jsonBody =
     \<lparr>url = ''https://api.spotify.com/'' @ endpoint,
      http_method = m,
      headers = [(''Authorization'', ''Bearer '' @ to_string token),
                 (''Content-Type'', ''application/json'')],
      body = (if truthy jsonBody then Json jsonBody else NoBody)\<rparr>"

definition spotifyFetch ::
  "platform \<Rightarrow> process_env \<Rightarrow> string \<Rightarrow> string \<Rightarrow> jsval \<Rightarrow> world
     \<Rightarrow> (error + jsval) \<times> world" where
  "spotifyFetch p pe endpoint m jsonBody w0 =
     (case refreshAccessTokenIfNeeded p pe w0 of
        (Inl e, w1) \<Rightarrow> (Inl e, w1)
      | (Inr token, w1) \<Rightarrow>
          if \<not> truthy token then (Inl NoCredentialsAvailable, w1)
          else
            let (res, w2) = fetch p (api_request token endpoint m jsonBody) w1 in
            (case res of
              Rejected \<Rightarrow> (Inl FetchFailed, w2)
            | Responded r \<Rightarrow>
                if \<not> ok r then (Inl (UpstreamApiError (status r) (text_or_empty r)), w2)
                else
                  (case body_json r of
                     None \<Rightarrow> (Inl BodyUnreadable, w2)
                   | Some j \<Rightarrow> (Inr j, w2))))"

section \<open>Normal mode: the tool handlers\<close>

text \<open>
  A handler returns a list of content blocks; the two handlers below return one block of
  plain text, \<open>{ type: "text", text: ... }\<close>.
\<close>

datatype content = TextBlock string

text \<open>
  \<open>xs.map((x, i) => f(i, x))\<close> where \<open>f\<close> may throw: the first throw ends the loop.
  The index starts at \<open>i\<close>.
\<close>

fun array_map :: "(nat \<Rightarrow> 'a \<Rightarrow> error + 'b) \<Rightarrow> nat \<Rightarrow> 'a list \<Rightarrow> error + 'b list" where
  "array_map f i [] = Inr []"
| "array_map f i (x # xs) =
     (case f i x of
        Inl e \<Rightarrow> Inl e
      | Inr y \<Rightarrow> (case array_map f (Suc i) xs of Inl e \<Rightarrow> Inl e | Inr ys \<Rightarrow> Inr (y # ys)))"

text \<open>The em dash of the result lines, as its three UTF-8 bytes.\<close>

definition em_dash :: string where
  "em_dash = [CHR 0xE2, CHR 0x80, CHR 0x94]"

text \<open>\<open>t.artists.map((a) => a.name).join(", ")\<close>: only an array has \<open>map\<close>.\<close>

definition artist_names :: "jsval \<Rightarrow> error + string" where
  "artist_names t =
     (case get_prop t ''artists'' of
        Inl e \<Rightarrow> Inl e
      | Inr (JArr artists) \<Rightarrow>
          (case array_map (\<lambda>i a. get_prop a ''name'') 0 artists of
             Inl e \<Rightarrow> Inl e
           | Inr names \<Rightarrow> Inr (js_join '', '' names))
      | Inr other \<Rightarrow> Inl TypeError)"

definition search_line :: "nat \<Rightarrow> jsval \<Rightarrow> error + string" where
  "search_line i t =
     (case get_prop t ''name'' of
        Inl e \<Rightarrow> Inl e
      | Inr name \<Rightarrow>
          (case artist_names t of
             Inl e \<Rightarrow> Inl e
           | Inr artists \<Rightarrow>
               Inr (show_nat (i + 1) @ ''. '' @ to_string name @ '' '' @ em_dash @ '' '' @ artists
                    @ ''  ['' @ to_string (get_prop_opt t ''uri'') @ '']'')))"

definition spotify_search_tracks ::
  "platform \<Rightarrow> process_env \<Rightarrow> string \<Rightarrow> int \<Rightarrow> world
     \<Rightarrow> (error + content list) \<times> world" where
  "spotify_search_tracks p pe q limit w0 =
     (case spotifyFetch p pe
             (''v1/search?type=track&limit='' @ show_int limit @ ''&q='' @ encodeURIComponent p q)
             ''GET'' JUndefined w0 of
        (Inl e, w1) \<Rightarrow> (Inl e, w1)
      | (Inr data, w1) \<Rightarrow>
          (case get_prop data ''tracks'' of
             Inl e \<Rightarrow> (Inl e, w1)
           | Inr tracks \<Rightarrow>
               (case nullish (get_prop_opt tracks ''items'') (JArr []) of
                  JArr items \<Rightarrow>
                    (case array_map search_line 0 items of
                       Inl e \<Rightarrow> (Inl e, w1)
                     | Inr lines \<Rightarrow>
                         (Inr [TextBlock
                                 (if join nl lines \<noteq> [] then join nl lines
                                  else ''No tracks found. Try a different query or filters.'')],
                          w1))
                | other \<Rightarrow> (Inl TypeError, w1))))"

definition spotify_add_to_playlist ::
  "platform \<Rightarrow> process_env \<Rightarrow> string \<Rightarrow> string list \<Rightarrow> int option \<Rightarrow> world
     \<Rightarrow> (error + content list) \<times> world" where
  "spotify_add_to_playlist p pe playlistId uris position w0 =
     (let body = JObj ((''uris'', JArr (map JStr uris))
                       # (case position of None \<Rightarrow> [] | Some n \<Rightarrow> [(''position'', JNum n)]))
      in
      case spotifyFetch p pe (''v1/playlists/'' @ encodeURIComponent p playlistId @ ''/tracks'')
             ''POST'' body w0 of
        (Inl e, w1) \<Rightarrow> (Inl e, w1)
      | (Inr added, w1) \<Rightarrow>
          (Inr [TextBlock (''Added '' @ show_nat (length uris) @ '' track(s) to playlist ''
                           @ playlistId @ ''.'')],
           w1))"

subsection \<open>Declared input schemas\<close>

text \<open>
  The schema declarations the sources use for \<open>spotify_add_to_playlist\<close>: \<open>ZString\<close> is
  \<open>z.string()\<close>, \<open>ZInt\<close> is \<open>z.number().int()\<close>, \<open>ZArray s n\<close> is \<open>z.array(s).min(n)\<close>,
  \<open>ZOptional s\<close> is \<open>s.optional()\<close>.
\<close>

datatype zschema = ZString | ZInt | ZArray zschema nat | ZOptional zschema

text \<open>
  Modelled from the spec: the schema library's validator, which is not part of the
  sources. The spec: "Input validation is declarative (type, enum membership, numeric
  bounds, required/optional)"; for \<open>add_to_playlist\<close> it asks for a "non-empty list".
  A string schema accepts strings, an integer schema the finite numbers (all numbers of
  the model are integers; what bound the library puts on an integer is left open), an
  array schema the arrays of at least the minimum length whose elements are all accepted,
  an optional schema also \<open>undefined\<close>.
\<close>

fun zod_accepts :: "zschema \<Rightarrow> jsval \<Rightarrow> bool" where
  "zod_accepts ZString v = (case v of JStr s \<Rightarrow> True | _ \<Rightarrow> False)"
| "zod_accepts ZInt v =
     (case v of
        JNum n \<Rightarrow> (case round_double n of Fin i \<Rightarrow> True | other \<Rightarrow> False)
      | _ \<Rightarrow> False)"
| "zod_accepts (ZArray s n) v =
     (case v of JArr xs \<Rightarrow> n \<le> length xs \<and> list_all (zod_accepts s) xs | _ \<Rightarrow> False)"
| "zod_accepts (ZOptional s) v = (v = JUndefined \<or> zod_accepts s v)"

text \<open>
  Modelled from the spec: the validation of the whole argument object, which is not in the
  sources. The arguments must be an object, and each declared field, read from it, must be
  accepted by the field's schema.
\<close>

definition shape_accepts :: "(string \<times> zschema) list \<Rightarrow> jsval \<Rightarrow> bool" where
  "shape_accepts shape args =
     (case args of
        JObj kvs \<Rightarrow> list_all (\<lambda>(k, s). zod_accepts s (get_prop_opt args k)) shape
      | _ \<Rightarrow> False)"

text \<open>The \<open>inputSchema\<close> registered for \<open>spotify_add_to_playlist\<close>.\<close>

definition add_to_playlist_schema :: "(string \<times> zschema) list" where
  "add_to_playlist_schema =
     [(''playlistId'', ZString), (''uris'', ZArray ZString 1), (''position'', ZOptional ZInt)]"

text \<open>The typed arguments a handler receives from an accepted argument object.\<close>

fun the_string :: "jsval \<Rightarrow> string" where
  "the_string (JStr s) = s"
| "the_string v = []"

fun the_strings :: "jsval \<Rightarrow> string list" where
  "the_strings (JArr xs) = map the_string xs"
| "the_strings v = []"

fun the_int_opt :: "jsval \<Rightarrow> int option" where
  "the_int_opt (JNum n) = (case round_double n of Fin i \<Rightarrow> Some i | other \<Rightarrow> None)"
| "the_int_opt v = None"

text \<open>
  Modelled from the spec: a call of the tool \<open>spotify_add_to_playlist\<close> as the host
  protocol runtime, which is not part of the sources, dispatches it. The spec: "a
  violation is rejected before any network call, with the violation reported back through
  the host protocol's standard invalid-input signaling". Arguments that violate the
  schema are answered with \<open>InvalidInput\<close> and the handler does not run.
\<close>

definition call_add_to_playlist ::
  "platform \<Rightarrow> process_env \<Rightarrow> jsval \<Rightarrow> world \<Rightarrow> (error + content list) \<times> world" where
  "call_add_to_playlist p pe args w =
     (if \<not> shape_accepts add_to_playlist_schema args then (Inl InvalidInput, w)
      else spotify_add_to_playlist p pe
             (the_string (get_prop_opt args ''playlistId''))
             (the_strings (get_prop_opt args ''uris''))
             (the_int_opt (get_prop_opt args ''position''))
             w)"

section \<open>Setup mode: the one-time authorization flow\<close>

text \<open>
  \<open>node server.js --setup\<close> checks that client id and secret are configured, draws the
  random \<open>STATE\<close>, and starts a listener on port 8888 whose request handler is
  \<open>on_request\<close> below. Console output is not modelled.
\<close>

definition REDIRECT_URI :: string where
  "REDIRECT_URI = ''http://127.0.0.1:8888/callback''"

record setup_config =
  CLIENT_ID :: string
  CLIENT_SECRET :: string
  STATE :: string

text \<open>The start: exit code 1 (\<open>Inl\<close>) without client id or secret.\<close>

definition setup_start :: "process_env \<Rightarrow> string \<Rightarrow> int + setup_config" where
  "setup_start pe random_hex =
     (let cid = env pe ''SPOTIFY_CLIENT_ID'' (JStr []);
          csecret = env pe ''SPOTIFY_CLIENT_SECRET'' (JStr [])
      in if \<not> truthy cid \<or> \<not> truthy csecret then Inl 1
         else Inr \<lparr>CLIENT_ID = to_string cid, CLIENT_SECRET = to_string csecret,
                   STATE = random_hex\<rparr>)"

text \<open>
  The phases of the flow. \<open>Awaiting\<close>: the listener is open and no exit is scheduled.
  \<open>Closing c\<close>: \<open>shutdown(c)\<close> has been called, that is
  \<open>server.close(() => process.exit(c))\<close>: the listener takes no new connection, and the
  process will exit with code \<open>c\<close> when the connections that are still open have
  closed; until then a request on such a connection is handled like any other.
  \<open>Exited c\<close>: the process has exited with code \<open>c\<close>.
\<close>

datatype phase = Awaiting | Closing int | Exited int

text \<open>
  The state of the flow: its phase, the token-exchange requests issued so far, and the
  two files it writes (\<open>None\<close>: the file does not exist).
\<close>

record setup_world =
  phase :: phase
  exchanges :: "request list"
  dotenv :: "string option"
  gitignore :: "string option"

text \<open>
  What the flow cannot decide: the outcome of the token exchange, and whether writing
  \<open>.env\<close> and \<open>.gitignore\<close> succeeds.
\<close>

record setup_platform =
  exchange_reply :: reply
  dotenv_write_ok :: bool
  gitignore_write_ok :: bool

text \<open>
  An incoming request: \<open>req.url\<close> (\<open>None\<close>: undefined), and the query parameters that
  \<open>new URL(req.url, REDIRECT_URI).searchParams\<close> holds for it, in order (\<open>None\<close>: the
  \<open>URL\<close> constructor throws). \<open>searchParams.get(k)\<close> is the first value of \<open>k\<close>.
\<close>

record incoming =
  req_url :: "string option"
  searchParams :: "(string \<times> string) list option"

text \<open>What the handler writes back: status, headers, body.\<close>

datatype answer = Answer nat "(string \<times> string) list" string

definition startsWith :: "string \<Rightarrow> string \<Rightarrow> bool" where
  "startsWith s pre = (take (length pre) s = pre)"

text \<open>The truthiness of a query parameter: present and not empty.\<close>

definition present :: "string option \<Rightarrow> bool" where
  "present v = (case v of None \<Rightarrow> False | Some x \<Rightarrow> x \<noteq> [])"

text \<open>
  \<open>shutdown(c)\<close> schedules the exit. The exits scheduled by several calls run in the
  order of the calls, so the code of the first call is the one the process exits with.
\<close>

definition shutdown :: "int \<Rightarrow> setup_world \<Rightarrow> setup_world" where
  "shutdown c s = (case phase s of Awaiting \<Rightarrow> s\<lparr>phase := Closing c\<rparr> | other \<Rightarrow> s)"

definition exchange_request :: "setup_config \<Rightarrow> string \<Rightarrow> request" where
  "exchange_request cfg c =
     \<lparr>url = ''https://accounts.spotify.com/api/token'',
      http_method = ''POST'',
      headers = [(''Content-Type'', ''application/x-www-form-urlencoded'')],
      body = Form [(''grant_type'', ''authorization_code''),
                   (''code'', c),
                   (''redirect_uri'', REDIRECT_URI),
                   (''client_id'', CLIENT_ID cfg),
                   (''client_secret'', CLIENT_SECRET cfg)]\<rparr>"

text \<open>The text written to \<open>.env\<close>.\<close>

definition env_lines :: "setup_config \<Rightarrow> jsval \<Rightarrow> jsval \<Rightarrow> string" where
  "env_lines cfg refresh access =
     join nl [''SPOTIFY_CLIENT_ID='' @ CLIENT_ID cfg,
              ''SPOTIFY_CLIENT_SECRET='' @ CLIENT_SECRET cfg,
              ''SPOTIFY_REFRESH_TOKEN='' @ to_string refresh,
              ''# Optional: SPOTIFY_ACCESS_TOKEN='' @ to_string access,
              []]"

text \<open>
  The inner \<open>try\<close>: write or append \<open>.env\<close>, then create \<open>.gitignore\<close> if there is none.
  A write that throws ends the block; what was written before stays.
\<close>

definition persist :: "setup_platform \<Rightarrow> string \<Rightarrow> setup_world \<Rightarrow> setup_world" where
  "persist pf lines s =
     (if \<not> dotenv_write_ok pf then s
      else
        let s1 = (case dotenv s of
                    None \<Rightarrow> s\<lparr>dotenv := Some lines\<rparr>
                  | Some old \<Rightarrow> s\<lparr>dotenv := Some (old @ nl @ lines)\<rparr>)
        in (case gitignore s1 of
              None \<Rightarrow> if gitignore_write_ok pf then s1\<lparr>gitignore := Some (''.env'' @ nl)\<rparr> else s1
            | Some g \<Rightarrow> s1))"

text \<open>The \<open>catch\<close> of the handler: answer 500 and \<open>process.exit(1)\<close>, at once.\<close>

definition internal_error :: "setup_world \<Rightarrow> answer \<times> setup_world" where
  "internal_error s = (Answer 500 [] ''Internal error'', s\<lparr>phase := Exited 1\<rparr>)"

definition on_request ::
  "setup_config \<Rightarrow> setup_platform \<Rightarrow> incoming \<Rightarrow> setup_world \<Rightarrow> answer \<times> setup_world" where
  "on_request cfg pf rq s =
     (if \<not> (case req_url rq of None \<Rightarrow> False | Some u \<Rightarrow> startsWith u ''/callback'')
      then (Answer 404 [] ''Not found'', s)
      else
        (case searchParams rq of
           None \<Rightarrow> internal_error s
         | Some params \<Rightarrow>
             let code = map_of params ''code'';
                 state = map_of params ''state'';
                 err = map_of params ''error''
             in
             if present err then (Answer 400 [] ''Auth error'', shutdown 1 s)
             else if \<not> present code \<or> state \<noteq> Some (STATE cfg)
             then (Answer 400 [] ''Bad request'', shutdown 1 s)
             else
               let s1 = s\<lparr>exchanges := exchanges s
                                     @ [exchange_request cfg (case code of None \<Rightarrow> [] | Some c \<Rightarrow> c)]\<rparr>
               in
               (case exchange_reply pf of
                  Rejected \<Rightarrow> internal_error s1
                | Responded r \<Rightarrow>
                    if \<not> ok r then (Answer 500 [] ''Token exchange failed'', shutdown 1 s1)
                    else
                      (case body_json r of
                         None \<Rightarrow> internal_error s1
                       | Some json \<Rightarrow>
                           (case get_prop json ''access_token'' of
                              Inl e \<Rightarrow> internal_error s1
                            | Inr access \<Rightarrow>
                                let refresh = get_prop_opt json ''refresh_token'';
                                    s2 = persist pf (env_lines cfg refresh access) s1
                                in (Answer 200 [(''Content-Type'', ''text/html'')]
                                      ''<h1>All set!</h1><p>You can close this window.</p>'',
                                    shutdown 0 s2))))))"




text \<open>
  The path of a request URL, for the statements about request paths: the URL up to its
  query or fragment.
\<close>

definition request_path :: "string \<Rightarrow> string" where
  "request_path u = takeWhile (\<lambda>c. c \<noteq> CHR ''?'' \<and> c \<noteq> CHR ''#'') u"

section \<open>Notions of the specification\<close>

text \<open>
  A configuration variable is configured when it is set and not empty; the refresh secret
  is complete when client id, client secret and refresh token all are.
\<close>

definition configured :: "process_env \<Rightarrow> string \<Rightarrow> bool" where
  "configured pe k = (case pe k of None \<Rightarrow> False | Some v \<Rightarrow> v \<noteq> [])"

definition refresh_secret_complete :: "process_env \<Rightarrow> bool" where
  "refresh_secret_complete pe =
     (configured pe ''SPOTIFY_CLIENT_ID'' \<and> configured pe ''SPOTIFY_CLIENT_SECRET''
      \<and> configured pe ''SPOTIFY_REFRESH_TOKEN'')"

text \<open>
  The lifetime in seconds that a refresh response declares: its \<open>expires_in\<close> when that
  is a number, 3600 when the response has none.
\<close>

fun declared_lifetime :: "jsval \<Rightarrow> int option" where
  "declared_lifetime (JNum n) = Some n"
| "declared_lifetime JUndefined = Some 3600"
| "declared_lifetime JNull = Some 3600"
| "declared_lifetime v = None"


section \<open>Sample inputs\<close>

definition demo_env :: process_env where
  "demo_env =
     map_of [(''SPOTIFY_CLIENT_ID'', ''id''), (''SPOTIFY_CLIENT_SECRET'', ''secret''),
             (''SPOTIFY_REFRESH_TOKEN'', ''rt'')]"

definition no_env :: process_env where
  "no_env = (\<lambda>k. None)"

text \<open>A platform whose clock always reads \<open>t\<close> and whose network always answers \<open>r\<close>.\<close>

definition demo_platform :: "int \<Rightarrow> reply \<Rightarrow> platform" where
  "demo_platform t r =
     \<lparr>date_now = (\<lambda>k. t), fetch_reply = (\<lambda>k. r), string_to_number = (\<lambda>s. NaN),
      base64 = (\<lambda>s. s), encodeURIComponent = (\<lambda>s. s)\<rparr>"

definition demo_world :: "jsval \<Rightarrow> jsnum \<Rightarrow> world" where
  "demo_world tok ex = \<lparr>ACCESS_TOKEN = tok, ACCESS_TOKEN_EXP = ex, sent = [], clock_reads = 0\<rparr>"

text \<open>A response with an empty body, which is not JSON.\<close>

definition empty_reply :: "nat \<Rightarrow> reply" where
  "empty_reply st = Responded \<lparr>status = st, body_text = Some [], body_json = None\<rparr>"

definition json_reply :: "nat \<Rightarrow> jsval \<Rightarrow> reply" where
  "json_reply st j = Responded \<lparr>status = st, body_text = Some ''body'', body_json = Some j\<rparr>"

definition demo_config :: setup_config where
  "demo_config = \<lparr>CLIENT_ID = ''id'', CLIENT_SECRET = ''secret'', STATE = ''0123456789abcdef''\<rparr>"

definition demo_setup_platform :: setup_platform where
  "demo_setup_platform =
     \<lparr>exchange_reply =
        json_reply 200 (JObj [(''access_token'', JStr ''at''), (''refresh_token'', JStr ''rt'')]),
      dotenv_write_ok = True, gitignore_write_ok = True\<rparr>"

text \<open>A search response without results.\<close>

definition no_tracks_body :: jsval where
  "no_tracks_body = JObj [(''tracks'', JObj [(''items'', JArr [])])]"




definition awaiting :: setup_world where
  "awaiting = \<lparr>phase = Awaiting, exchanges = [], dotenv = None, gitignore = None\<rparr>"

section \<open>Properties of numbers and their text\<close>

lemma round_double_exact: "\<bar>x\<bar> \<le> 2 ^ 53 \<Longrightarrow> round_double x = Fin x"
  by (simp add: round_double_def)

lemma bit_length_bounds: "0 < n \<Longrightarrow> 2 ^ (bit_length n - 1) \<le> n \<and> n < 2 ^ bit_length n"
proof (induction n rule: bit_length.induct)
  case (1 n)
  show ?case
  proof (cases "n div 2 = 0")
    case True
    with "1.prems" have "n = 1" by presburger
    then show ?thesis by (simp add: bit_length.simps)
  next
    case False
    then have ih: "2 ^ (bit_length (n div 2) - 1) \<le> n div 2 \<and> n div 2 < 2 ^ bit_length (n div 2)"
      using "1.IH" "1.prems" by simp
    have pos: "0 < bit_length (n div 2)"
      using False by (simp add: bit_length.simps [of "n div 2"])
    have bl: "bit_length n = Suc (bit_length (n div 2))"
      using "1.prems" by (simp add: bit_length.simps [of n])
    have "2 ^ bit_length (n div 2) = (2::nat) * 2 ^ (bit_length (n div 2) - 1)"
      using pos by (cases "bit_length (n div 2)") simp_all
    then have lo: "(2::nat) ^ bit_length (n div 2) \<le> n"
      using ih by presburger
    have hi: "n < 2 * 2 ^ bit_length (n div 2)"
      using ih by presburger
    show ?thesis
      using lo hi by (simp add: bl)
  qed
qed

text \<open>
  Beyond \<open>2^53\<close> the double nearest to an integer is again beyond \<open>2^53\<close>, or infinite.
\<close>

lemma round_double_large:
  assumes "2 ^ 53 < x"
  shows "round_double x = PInf \<or> (\<exists>v. round_double x = Fin v \<and> 2 ^ 53 \<le> v)"
proof -
  define a where "a = nat \<bar>x\<bar>"
  define q where "q = (2::nat) ^ (bit_length a - 53)"
  define d where "d = a div q"
  define m where "m = (if q < 2 * (a mod q) \<or> (q = 2 * (a mod q) \<and> odd d) then d + 1 else d)"
  have a: "2 ^ 53 < a" using assms by (simp add: a_def)
  then have apos: "0 < a" by simp
  have b: "2 ^ (bit_length a - 1) \<le> a" "a < 2 ^ bit_length a"
    using bit_length_bounds [OF apos] by simp_all
  have "(2::nat) ^ 53 < 2 ^ bit_length a" using a b(2) by (rule less_trans)
  then have bl: "53 < bit_length a"
    using power_less_imp_less_exp [of "2::nat" 53 "bit_length a"] by simp
  then have "bit_length a - 1 = 52 + (bit_length a - 53)" by arith
  then have "(2::nat) ^ (bit_length a - 1) = 2 ^ 52 * q"
    unfolding q_def by (metis power_add)
  then have "2 ^ 52 * q \<le> a" using b(1) by simp
  moreover have qpos: "0 < q" by (simp add: q_def)
  ultimately have "2 ^ 52 \<le> d"
    unfolding d_def by (simp add: less_eq_div_iff_mult_less_eq)
  then have "2 ^ 52 \<le> m" by (simp add: m_def)
  moreover have "2 \<le> q"
    using power_increasing [of 1 "bit_length a - 53" "2::nat"] bl by (simp add: q_def)
  ultimately have "2 ^ 52 * 2 \<le> m * q" by (rule mult_le_mono)
  from of_nat_mono [OF this, where ?'a = int] have mq: "(2::int) ^ 53 \<le> int (m * q)"
    by simp
  have nz: "\<not> \<bar>x\<bar> \<le> 2 ^ 53" "\<not> x < 0" using assms by simp_all
  have rd: "round_double x = (if 2 ^ 1024 \<le> m * q then PInf else Fin (int (m * q)))"
    unfolding round_double_def Let_def m_def d_def q_def a_def
    by (simp only: nz if_False)
  show ?thesis
  proof (cases "2 ^ 1024 \<le> m * q")
    case True
    then have "round_double x = PInf" by (simp only: rd if_True)
    then show ?thesis by blast
  next
    case False
    then have "round_double x = Fin (int (m * q))" by (simp only: rd if_False)
    with mq show ?thesis by blast
  qed
qed

lemma round_double_small:
  assumes "x < - (2 ^ 53)"
  shows "round_double x = NInf \<or> (\<exists>v. round_double x = Fin v \<and> v \<le> - (2 ^ 53))"
proof -
  have neg: "round_double x
      = (case round_double (- x) of Fin v \<Rightarrow> Fin (- v) | PInf \<Rightarrow> NInf | other \<Rightarrow> other)"
    using assms by (simp add: round_double_def Let_def)
  have "2 ^ 53 < - x" using assms by simp
  from round_double_large [OF this] show ?thesis
    by (auto simp: neg)
qed

text \<open>
  Rounding the difference in the freshness test would not change its outcome: a clock
  reading is an integer of magnitude below \<open>2^53\<close>.
\<close>

lemma js_less_round_double:
  assumes "\<bar>t\<bar> < 2 ^ 53"
  shows "js_less (Fin t) (round_double y) = js_less (Fin t) (Fin y)"
proof -
  consider "\<bar>y\<bar> \<le> 2 ^ 53" | "2 ^ 53 < y" | "y < - (2 ^ 53)" by linarith
  then show ?thesis
  proof cases
    case 1
    then show ?thesis by (simp add: round_double_exact)
  next
    case 2
    with assms have "t < y" by linarith
    moreover have "js_less (Fin t) (round_double y)"
      using round_double_large [OF 2] assms by auto
    ultimately show ?thesis by simp
  next
    case 3
    with assms have "\<not> t < y" by linarith
    moreover have "\<not> js_less (Fin t) (round_double y)"
      using round_double_small [OF 3] assms by auto
    ultimately show ?thesis by simp
  qed
qed

text \<open>
  The decimal digits determine the number and hold no space.
\<close>

lemma digit_char_inj: "a < 10 \<Longrightarrow> b < 10 \<Longrightarrow> digit_char a = digit_char b \<Longrightarrow> a = b"
proof -
  assume ab: "a < 10" "b < 10" and eq: "digit_char a = digit_char b"
  have d: "distinct ''0123456789''" by simp
  have "''0123456789'' ! a = ''0123456789'' ! b"
    using eq ab by (simp add: digit_char_def)
  with d ab show "a = b"
    by (simp add: nth_eq_iff_index_eq)
qed

lemma digit_char_not_space: "digit_char d \<noteq> CHR '' ''"
proof -
  have "digit_char d \<in> set ''0123456789''"
    unfolding digit_char_def by (rule nth_mem) simp
  then show ?thesis by auto
qed

lemma decimal_not_Nil: "decimal n \<noteq> []"
  by (subst decimal.simps) simp

lemma decimal_no_space: "CHR '' '' \<notin> set (decimal n)"
proof (induction n rule: decimal.induct)
  case (1 n)
  then show ?case
    by (subst decimal.simps) (auto simp: digit_char_not_space [THEN not_sym])
qed

lemma decimal_inj: "decimal a = decimal b \<Longrightarrow> a = b"
proof (induction a arbitrary: b rule: decimal.induct)
  case (1 a)
  show ?case
  proof (cases "a < 10")
    case a: True
    show ?thesis
    proof (cases "b < 10")
      case True
      with a "1.prems" show ?thesis
        by (simp add: decimal.simps [of a] decimal.simps [of b] digit_char_inj)
    next
      case False
      with a "1.prems" show ?thesis
        using decimal_not_Nil [of "b div 10"]
        by (simp add: decimal.simps [of a] decimal.simps [of b] Cons_eq_append_conv)
    qed
  next
    case a: False
    show ?thesis
    proof (cases "b < 10")
      case True
      with a "1.prems" show ?thesis
        using decimal_not_Nil [of "a div 10"]
        by (simp add: decimal.simps [of a] decimal.simps [of b] append_eq_Cons_conv)
    next
      case False
      with a "1.prems" have eq: "decimal (a div 10) = decimal (b div 10)"
        and dg: "digit_char (a mod 10) = digit_char (b mod 10)"
        by (simp_all add: decimal.simps [of a] decimal.simps [of b])
      from "1.IH" [OF a eq] have "a div 10 = b div 10" .
      moreover from dg have "a mod 10 = b mod 10"
        by (intro digit_char_inj) simp_all
      ultimately show ?thesis
        by (metis div_mult_mod_eq)
    qed
  qed
qed

lemma show_nat_decimal: "n \<le> 2 ^ 53 \<Longrightarrow> show_nat n = decimal n"
  by (simp add: show_nat_def)

text \<open>
  A message \<open><prefix><status> <text>\<close> determines the status and the text.
\<close>

lemma split_at_space:
  assumes "xs @ '' '' @ s = ys @ '' '' @ t"
    and "CHR '' '' \<notin> set xs" and "CHR '' '' \<notin> set ys"
  shows "xs = ys \<and> s = t"
proof -
  have "takeWhile (\<lambda>c. c \<noteq> CHR '' '') (xs @ '' '' @ s) = xs"
    using assms(2) by (auto simp: takeWhile_tail)
  moreover have "takeWhile (\<lambda>c. c \<noteq> CHR '' '') (ys @ '' '' @ t) = ys"
    using assms(3) by (auto simp: takeWhile_tail)
  ultimately have "xs = ys" using assms(1) by simp
  with assms(1) show ?thesis by simp
qed

lemma status_line_inj:
  assumes "st \<le> 2 ^ 53" and "st' \<le> 2 ^ 53"
    and "pre @ show_nat st @ '' '' @ txt = pre @ show_nat st' @ '' '' @ txt'"
  shows "st = st' \<and> txt = txt'"
proof -
  have "decimal st @ '' '' @ txt = decimal st' @ '' '' @ txt'"
    using assms by (simp add: show_nat_decimal)
  from split_at_space [OF this decimal_no_space decimal_no_space]
  show ?thesis by (auto dest: decimal_inj)
qed

section \<open>Properties of the token store\<close>

text \<open>
  The freshness test in words: a token is cached and its expiry instant lies more than 30
  seconds after the clock reading (an infinite expiry lies after every reading).
\<close>

lemma cache_is_fresh_iff:
  "cache_is_fresh now w \<longleftrightarrow>
     truthy (ACCESS_TOKEN w)
     \<and> ((\<exists>e. ACCESS_TOKEN_EXP w = Fin e \<and> 30000 < e - now) \<or> ACCESS_TOKEN_EXP w = PInf)"
  by (cases "ACCESS_TOKEN_EXP w") (auto simp: cache_is_fresh_def)

lemma truthy_env: "truthy (env pe k JUndefined) = configured pe k"
  by (simp add: env_def configured_def split: option.splits)

text \<open>
  The two early returns: nothing but the count of clock readings changes.
\<close>

lemma refresh_fresh:
  assumes "cache_is_fresh (date_now p (clock_reads w)) w"
  shows "refreshAccessTokenIfNeeded p pe w
           = (Inr (ACCESS_TOKEN w), w\<lparr>clock_reads := Suc (clock_reads w)\<rparr>)"
  using assms by (simp add: refreshAccessTokenIfNeeded_def Date_now_def cache_is_fresh_def)

lemma refresh_without_secret:
  assumes "\<not> refresh_secret_complete pe"
  shows "refreshAccessTokenIfNeeded p pe w
           = (Inr (ACCESS_TOKEN w), w\<lparr>clock_reads := Suc (clock_reads w)\<rparr>)"
  using assms
  by (auto simp add: refreshAccessTokenIfNeeded_def Date_now_def cache_is_fresh_def truthy_env
      refresh_secret_complete_def Let_def)

text \<open>
  A refresh attempt issues its request whatever the outcome.
\<close>

lemma refresh_attempt_sent:
  assumes "\<not> cache_is_fresh (date_now p (clock_reads w)) w"
    and "refresh_secret_complete pe"
  shows "sent (snd (refreshAccessTokenIfNeeded p pe w)) =
           sent w @ [refresh_request p (env pe ''SPOTIFY_CLIENT_ID'' JUndefined)
                       (env pe ''SPOTIFY_CLIENT_SECRET'' JUndefined)
                       (env pe ''SPOTIFY_REFRESH_TOKEN'' JUndefined)]"
  using assms
  by (auto simp add: refreshAccessTokenIfNeeded_def Date_now_def fetch_def cache_is_fresh_def
      truthy_env refresh_secret_complete_def Let_def
      split: option.splits sum.splits reply.splits)

text \<open>
  The rest of the function, once the refresh request has been answered.
\<close>

lemma refresh_attempt:
  assumes "\<not> cache_is_fresh (date_now p (clock_reads w)) w"
    and "refresh_secret_complete pe"
    and "fetch_reply p (length (sent w)) = Responded r"
  shows "refreshAccessTokenIfNeeded p pe w =
      (let w2 = w\<lparr>clock_reads := Suc (clock_reads w),
                  sent := sent w @ [refresh_request p (env pe ''SPOTIFY_CLIENT_ID'' JUndefined)
                                      (env pe ''SPOTIFY_CLIENT_SECRET'' JUndefined)
                                      (env pe ''SPOTIFY_REFRESH_TOKEN'' JUndefined)]\<rparr>
       in
       if \<not> ok r then (Inl (TokenRefreshFailed (status r) (text_or_empty r)), w2)
       else
         case body_json r of
           None \<Rightarrow> (Inl BodyUnreadable, w2)
         | Some data \<Rightarrow>
             (case get_prop data ''access_token'' of
                Inl e \<Rightarrow> (Inl e, w2)
              | Inr tok \<Rightarrow>
                  (Inr tok,
                   w2\<lparr>ACCESS_TOKEN := tok,
                      clock_reads := Suc (Suc (clock_reads w)),
                      ACCESS_TOKEN_EXP :=
                        js_plus (Fin (date_now p (Suc (clock_reads w))))
                          (js_times
                             (Number_js (string_to_number p)
                                (nullish (get_prop_opt data ''expires_in'') (JNum 3600)))
                             (Fin 1000))\<rparr>)))"
  using assms
  by (auto simp add: refreshAccessTokenIfNeeded_def Date_now_def fetch_def cache_is_fresh_def
      truthy_env refresh_secret_complete_def Let_def split: option.splits sum.splits)

lemma declared_lifetime_Number:
  "declared_lifetime v = Some n \<Longrightarrow> Number_js s2n (nullish v (JNum 3600)) = round_double n"
  by (cases v) (auto simp: nullish_def)

lemma get_prop_not_null:
  "data \<noteq> JNull \<Longrightarrow> data \<noteq> JUndefined \<Longrightarrow> get_prop data k = Inr (get_prop_opt data k)"
  by (cases data) (auto simp: get_prop_opt_def split: option.splits)

text \<open>
  Within the range of exact arithmetic the expiry is the sum of integers.
\<close>

lemma expiry_exact:
  assumes "\<bar>n * 1000\<bar> \<le> 2 ^ 53" and "\<bar>t + n * 1000\<bar> \<le> 2 ^ 53"
  shows "js_plus (Fin t) (js_times (round_double n) (Fin 1000)) = Fin (t + n * 1000)"
proof -
  have "\<bar>n\<bar> \<le> \<bar>n * 1000\<bar>" by (simp add: abs_mult)
  with assms(1) have "\<bar>n\<bar> \<le> 2 ^ 53" by linarith
  then have "round_double n = Fin n" by (rule round_double_exact)
  then show ?thesis
    using assms by (simp add: round_double_exact)
qed

text \<open>
  Claim C1. When a token is cached and its stored expiry instant is more than 30 seconds
  after the current clock reading, \<open>refreshAccessTokenIfNeeded\<close> returns the cached value
  itself, issues no request, and leaves token and expiry as they were.
\<close>

theorem cached_token_reused:
  assumes "truthy (ACCESS_TOKEN w)"
    and "ACCESS_TOKEN_EXP w = Fin e"
    and "30000 < e - date_now p (clock_reads w)"
  shows "fst (refreshAccessTokenIfNeeded p pe w) = Inr (ACCESS_TOKEN w)
       \<and> sent (snd (refreshAccessTokenIfNeeded p pe w)) = sent w
       \<and> ACCESS_TOKEN (snd (refreshAccessTokenIfNeeded p pe w)) = ACCESS_TOKEN w
       \<and> ACCESS_TOKEN_EXP (snd (refreshAccessTokenIfNeeded p pe w)) = ACCESS_TOKEN_EXP w"
proof -
  have "cache_is_fresh (date_now p (clock_reads w)) w"
    using assms by (simp add: cache_is_fresh_iff)
  then show ?thesis
    by (simp add: refresh_fresh)
qed

theorem cached_token_reused_witness:
  "fst (refreshAccessTokenIfNeeded (demo_platform 1000 Rejected) demo_env
          (demo_world (JStr ''cached'') (Fin 31001))) = Inr (JStr ''cached'')
   \<and> sent (snd (refreshAccessTokenIfNeeded (demo_platform 1000 Rejected) demo_env
          (demo_world (JStr ''cached'') (Fin 31001)))) = []"
  using cached_token_reused [of "demo_world (JStr ''cached'') (Fin 31001)" 31001
      "demo_platform 1000 Rejected" demo_env]
  by (simp add: demo_world_def demo_platform_def)

text \<open>
  Claim C2. When the cache is not fresh (no token, or an expiry within 30 seconds of the
  clock reading) and client id, client secret and refresh token are all configured, the
  call issues exactly one request, whatever the outcome of that request: the POST to the
  token endpoint with the grant type \<open>refresh_token\<close>, the refresh token, and Basic
  authentication from client id and secret. On a success response whose body is a JSON
  value \<open>data\<close> other than \<open>null\<close> declaring the lifetime \<open>n\<close> (its \<open>expires_in\<close>,
  or 3600 when it has none), the call stores \<open>data.access_token\<close> and returns it, and
  sets the expiry to \<open>Date.now() + n * 1000\<close> on the clock reading taken after the
  response, as the language computes it: the sum of the integers whenever neither the
  product nor the sum exceeds \<open>2^53\<close> in magnitude, the nearest double beyond.
\<close>

theorem stale_token_refreshed:
  assumes "\<not> cache_is_fresh (date_now p (clock_reads w)) w"
    and "pe ''SPOTIFY_CLIENT_ID'' = Some cid" and "cid \<noteq> []"
    and "pe ''SPOTIFY_CLIENT_SECRET'' = Some csecret" and "csecret \<noteq> []"
    and "pe ''SPOTIFY_REFRESH_TOKEN'' = Some rt" and "rt \<noteq> []"
  shows "sent (snd (refreshAccessTokenIfNeeded p pe w)) =
           sent w @ [\<lparr>url = ''https://accounts.spotify.com/api/token'',
                      http_method = ''POST'',
                      headers = [(''Authorization'', ''Basic '' @ base64 p (cid @ '':'' @ csecret)),
                                 (''Content-Type'', ''application/x-www-form-urlencoded'')],
                      body = Form [(''grant_type'', ''refresh_token''),
                                   (''refresh_token'', rt)]\<rparr>]
       \<and> (\<forall>r data n.
             fetch_reply p (length (sent w)) = Responded r
             \<and> 200 \<le> status r \<and> status r \<le> 299
             \<and> body_json r = Some data \<and> data \<noteq> JNull \<and> data \<noteq> JUndefined
             \<and> declared_lifetime (get_prop_opt data ''expires_in'') = Some n
             \<longrightarrow>
               fst (refreshAccessTokenIfNeeded p pe w) = Inr (get_prop_opt data ''access_token'')
               \<and> ACCESS_TOKEN (snd (refreshAccessTokenIfNeeded p pe w))
                   = get_prop_opt data ''access_token''
               \<and> ACCESS_TOKEN_EXP (snd (refreshAccessTokenIfNeeded p pe w))
                   = js_plus (Fin (date_now p (Suc (clock_reads w))))
                       (js_times (round_double n) (Fin 1000))
               \<and> (\<bar>n * 1000\<bar> \<le> 2 ^ 53 \<and> \<bar>date_now p (Suc (clock_reads w)) + n * 1000\<bar> \<le> 2 ^ 53
                    \<longrightarrow> ACCESS_TOKEN_EXP (snd (refreshAccessTokenIfNeeded p pe w))
                          = Fin (date_now p (Suc (clock_reads w)) + n * 1000)))"
proof -
  have complete: "refresh_secret_complete pe"
    using assms(2-7) by (simp add: refresh_secret_complete_def configured_def)
  have one: "sent (snd (refreshAccessTokenIfNeeded p pe w)) =
           sent w @ [\<lparr>url = ''https://accounts.spotify.com/api/token'',
                      http_method = ''POST'',
                      headers = [(''Authorization'', ''Basic '' @ base64 p (cid @ '':'' @ csecret)),
                                 (''Content-Type'', ''application/x-www-form-urlencoded'')],
                      body = Form [(''grant_type'', ''refresh_token''),
                                   (''refresh_token'', rt)]\<rparr>]"
    using assms(2,4,6)
    by (simp add: refresh_attempt_sent [OF assms(1) complete] refresh_request_def env_def)
  have rest: "fst (refreshAccessTokenIfNeeded p pe w) = Inr (get_prop_opt data ''access_token'')
               \<and> ACCESS_TOKEN (snd (refreshAccessTokenIfNeeded p pe w))
                   = get_prop_opt data ''access_token''
               \<and> ACCESS_TOKEN_EXP (snd (refreshAccessTokenIfNeeded p pe w))
                   = js_plus (Fin (date_now p (Suc (clock_reads w))))
                       (js_times (round_double n) (Fin 1000))"
    if r: "fetch_reply p (length (sent w)) = Responded r"
      and st: "200 \<le> status r" "status r \<le> 299"
      and data: "body_json r = Some data" "data \<noteq> JNull" "data \<noteq> JUndefined"
      and n: "declared_lifetime (get_prop_opt data ''expires_in'') = Some n"
    for r data n
  proof -
    have tok: "get_prop data ''access_token'' = Inr (get_prop_opt data ''access_token'')"
      using data(2,3) by (rule get_prop_not_null)
    have num: "Number_js (string_to_number p)
                 (nullish (get_prop_opt data ''expires_in'') (JNum 3600)) = round_double n"
      using n by (rule declared_lifetime_Number)
    show ?thesis
      using st data(1) tok num
      by (simp add: refresh_attempt [OF assms(1) complete r] ok_def)
  qed
  show ?thesis
    using one rest expiry_exact by (auto simp del: js_plus.simps js_times.simps)
qed

theorem stale_token_refreshed_witness:
  "sent (snd (refreshAccessTokenIfNeeded
          (demo_platform 1000
             (json_reply 200 (JObj [(''access_token'', JStr ''new''), (''expires_in'', JNum 60)])))
          demo_env (demo_world (JStr ''old'') (Fin 30500))))
     = [\<lparr>url = ''https://accounts.spotify.com/api/token'', http_method = ''POST'',
         headers = [(''Authorization'', ''Basic id:secret''),
                    (''Content-Type'', ''application/x-www-form-urlencoded'')],
         body = Form [(''grant_type'', ''refresh_token''), (''refresh_token'', ''rt'')]\<rparr>]
   \<and> fst (refreshAccessTokenIfNeeded
          (demo_platform 1000
             (json_reply 200 (JObj [(''access_token'', JStr ''new''), (''expires_in'', JNum 60)])))
          demo_env (demo_world (JStr ''old'') (Fin 30500))) = Inr (JStr ''new'')
   \<and> ACCESS_TOKEN (snd (refreshAccessTokenIfNeeded
          (demo_platform 1000
             (json_reply 200 (JObj [(''access_token'', JStr ''new''), (''expires_in'', JNum 60)])))
          demo_env (demo_world (JStr ''old'') (Fin 30500)))) = JStr ''new''
   \<and> ACCESS_TOKEN_EXP (snd (refreshAccessTokenIfNeeded
          (demo_platform 1000
             (json_reply 200 (JObj [(''access_token'', JStr ''new''), (''expires_in'', JNum 60)])))
          demo_env (demo_world (JStr ''old'') (Fin 30500)))) = Fin 61000
   \<and> sent (snd (refreshAccessTokenIfNeeded (demo_platform 1000 Rejected) demo_env
          (demo_world JNull (Fin 0))))
     = [\<lparr>url = ''https://accounts.spotify.com/api/token'', http_method = ''POST'',
         headers = [(''Authorization'', ''Basic id:secret''),
                    (''Content-Type'', ''application/x-www-form-urlencoded'')],
         body = Form [(''grant_type'', ''refresh_token''), (''refresh_token'', ''rt'')]\<rparr>]"
  using stale_token_refreshed [of
      "demo_platform 1000
         (json_reply 200 (JObj [(''access_token'', JStr ''new''), (''expires_in'', JNum 60)]))"
      "demo_world (JStr ''old'') (Fin 30500)" demo_env "''id''" "''secret''" "''rt''"]
    stale_token_refreshed [of "demo_platform 1000 Rejected" "demo_world JNull (Fin 0)" demo_env
      "''id''" "''secret''" "''rt''"]
  by (simp add: demo_world_def demo_platform_def demo_env_def json_reply_def cache_is_fresh_def
      get_prop_opt_def round_double_def)

text \<open>
  Claim C9. When a refresh is attempted and the authorization server answers with a
  status outside 200..299, the call fails with the error "Spotify token refresh failed:",
  the status and the response text, and the cached token and its expiry are what they
  were before the call.
\<close>

theorem refresh_failure_keeps_store:
  assumes "\<not> cache_is_fresh (date_now p (clock_reads w)) w"
    and "refresh_secret_complete pe"
    and "fetch_reply p (length (sent w)) = Responded r"
    and "\<not> ok r"
  shows "fst (refreshAccessTokenIfNeeded p pe w) = Inl (TokenRefreshFailed (status r) (text_or_empty r))
       \<and> ACCESS_TOKEN (snd (refreshAccessTokenIfNeeded p pe w)) = ACCESS_TOKEN w
       \<and> ACCESS_TOKEN_EXP (snd (refreshAccessTokenIfNeeded p pe w)) = ACCESS_TOKEN_EXP w"
  using assms(4) by (simp add: refresh_attempt [OF assms(1,2,3)])

theorem refresh_failure_keeps_store_witness:
  "fst (refreshAccessTokenIfNeeded (demo_platform 1000 (json_reply 401 JNull)) demo_env
          (demo_world (JStr ''old'') (Fin 30500)))
     = Inl (Error ''Spotify token refresh failed: 401 body'')
   \<and> ACCESS_TOKEN (snd (refreshAccessTokenIfNeeded (demo_platform 1000 (json_reply 401 JNull))
          demo_env (demo_world (JStr ''old'') (Fin 30500)))) = JStr ''old''
   \<and> ACCESS_TOKEN_EXP (snd (refreshAccessTokenIfNeeded (demo_platform 1000 (json_reply 401 JNull))
          demo_env (demo_world (JStr ''old'') (Fin 30500)))) = Fin 30500"
  using refresh_failure_keeps_store [of "demo_platform 1000 (json_reply 401 JNull)"
      "demo_world (JStr ''old'') (Fin 30500)" demo_env
      "\<lparr>status = 401, body_text = Some ''body'', body_json = Some JNull\<rparr>"]
  by (simp add: demo_world_def demo_platform_def demo_env_def json_reply_def cache_is_fresh_def
      refresh_secret_complete_def configured_def ok_def TokenRefreshFailed_def text_or_empty_def
      show_nat_def decimal.simps digit_char_def)

text \<open>
  Claim C10. When client id, client secret or refresh token is not configured, the call
  returns the cached token value (possibly \<open>null\<close>), issues no request, and leaves token
  and expiry unchanged.
\<close>

theorem incomplete_secret_returns_cache:
  assumes "\<not> configured pe ''SPOTIFY_CLIENT_ID'' \<or> \<not> configured pe ''SPOTIFY_CLIENT_SECRET''
           \<or> \<not> configured pe ''SPOTIFY_REFRESH_TOKEN''"
  shows "fst (refreshAccessTokenIfNeeded p pe w) = Inr (ACCESS_TOKEN w)
       \<and> sent (snd (refreshAccessTokenIfNeeded p pe w)) = sent w
       \<and> ACCESS_TOKEN (snd (refreshAccessTokenIfNeeded p pe w)) = ACCESS_TOKEN w
       \<and> ACCESS_TOKEN_EXP (snd (refreshAccessTokenIfNeeded p pe w)) = ACCESS_TOKEN_EXP w"
proof -
  have "\<not> refresh_secret_complete pe"
    using assms by (auto simp: refresh_secret_complete_def)
  then show ?thesis
    by (simp add: refresh_without_secret)
qed

theorem incomplete_secret_returns_cache_witness:
  "fst (refreshAccessTokenIfNeeded (demo_platform 1000 Rejected)
          (demo_env(''SPOTIFY_CLIENT_SECRET'' := None)) (demo_world (JStr ''static'') (Fin 0)))
     = Inr (JStr ''static'')
   \<and> sent (snd (refreshAccessTokenIfNeeded (demo_platform 1000 Rejected)
          (demo_env(''SPOTIFY_CLIENT_SECRET'' := None)) (demo_world (JStr ''static'') (Fin 0)))) = []
   \<and> ACCESS_TOKEN_EXP (snd (refreshAccessTokenIfNeeded (demo_platform 1000 Rejected)
          (demo_env(''SPOTIFY_CLIENT_SECRET'' := None)) (demo_world (JStr ''static'') (Fin 0)))) = Fin 0"
  using incomplete_secret_returns_cache [of "demo_env(''SPOTIFY_CLIENT_SECRET'' := None)"
      "demo_platform 1000 Rejected" "demo_world (JStr ''static'') (Fin 0)"]
  by (simp add: demo_world_def configured_def)

section \<open>Properties of the request client\<close>

text \<open>
  Claim C3, as stated, at the start state with nothing configured: without refresh
  secret and without cached token \<open>refreshAccessTokenIfNeeded\<close> does not fail, it returns
  \<open>null\<close>.
\<close>

theorem no_credentials_is_not_a_failure:
  "fst (refreshAccessTokenIfNeeded (demo_platform 1000 Rejected) no_env (initial_world no_env))
     = Inr JNull
   \<and> fst (refreshAccessTokenIfNeeded (demo_platform 1000 Rejected) no_env (initial_world no_env))
     \<noteq> Inl NoCredentialsAvailable"
  by (simp add: refreshAccessTokenIfNeeded_def Date_now_def cache_is_fresh_def initial_world_def
      no_env_def env_def js_or_def)

text \<open>
  Claim C3, amended. Without a complete refresh secret and without a cached token,
  \<open>refreshAccessTokenIfNeeded\<close> returns the empty cached value and issues no request; it
  is its caller \<open>spotifyFetch\<close> that then fails with \<open>NoCredentialsAvailable\<close>, also
  without issuing a request.
\<close>

theorem no_credentials_fails_in_client:
  assumes "\<not> truthy (ACCESS_TOKEN w)"
    and "\<not> refresh_secret_complete pe"
  shows "fst (refreshAccessTokenIfNeeded p pe w) = Inr (ACCESS_TOKEN w)
       \<and> sent (snd (refreshAccessTokenIfNeeded p pe w)) = sent w
       \<and> fst (spotifyFetch p pe endpoint m jsonBody w) = Inl NoCredentialsAvailable
       \<and> sent (snd (spotifyFetch p pe endpoint m jsonBody w)) = sent w"
  using assms(1) by (simp add: spotifyFetch_def refresh_without_secret [OF assms(2)])

theorem no_credentials_fails_in_client_witness:
  "fst (refreshAccessTokenIfNeeded (demo_platform 1000 Rejected) no_env (initial_world no_env))
     = Inr JNull
   \<and> sent (snd (refreshAccessTokenIfNeeded (demo_platform 1000 Rejected) no_env
        (initial_world no_env))) = []
   \<and> fst (spotifyFetch (demo_platform 1000 Rejected) no_env ''v1/me'' ''GET'' JUndefined
        (initial_world no_env)) = Inl NoCredentialsAvailable
   \<and> sent (snd (spotifyFetch (demo_platform 1000 Rejected) no_env ''v1/me'' ''GET'' JUndefined
        (initial_world no_env))) = []"
  using no_credentials_fails_in_client [of "initial_world no_env" no_env
      "demo_platform 1000 Rejected" "''v1/me''" "''GET''" JUndefined]
  by (simp add: initial_world_def no_env_def env_def js_or_def refresh_secret_complete_def
      configured_def)

text \<open>
  Claim C4, as stated, at a success response without content (status 204, empty body):
  there is no JSON to parse, \<open>res.json()\<close> rejects, and the call fails instead of
  returning a body.
\<close>

theorem empty_success_body_is_a_failure:
  "ok \<lparr>status = 204, body_text = Some [], body_json = None\<rparr>
   \<and> fst (spotifyFetch (demo_platform 1000 (empty_reply 204)) no_env ''v1/me'' ''GET'' JUndefined
          (demo_world (JStr ''tok'') (Fin 0)))
     = Inl BodyUnreadable"
  by (simp add: spotifyFetch_def refreshAccessTokenIfNeeded_def Date_now_def cache_is_fresh_def
      no_env_def env_def fetch_def demo_world_def demo_platform_def empty_reply_def ok_def)

text \<open>
  Claim C4, amended. When \<open>spotifyFetch\<close> has obtained a token and the API answers its
  request: on a status outside 200..299 the call fails with the error whose message is
  "Spotify API error: ", the status in decimal digits, a space and the response text (the
  empty text when the body cannot be read), and this message determines status and text;
  on a status in 200..299 it returns the JSON value parsed from the body when the body is
  JSON, and fails with the body reader's error when it is not.
\<close>

theorem spotifyFetch_outcome:
  assumes "refreshAccessTokenIfNeeded p pe w = (Inr token, w1)"
    and "truthy token"
    and "fetch_reply p (length (sent w1)) = Responded r"
  shows "(\<not> (200 \<le> status r \<and> status r \<le> 299) \<longrightarrow>
            fst (spotifyFetch p pe endpoint m jsonBody w)
              = Inl (Error (''Spotify API error: '' @ show_nat (status r) @ '' ''
                            @ (case body_text r of None \<Rightarrow> [] | Some t \<Rightarrow> t))))
       \<and> (200 \<le> status r \<and> status r \<le> 299 \<longrightarrow>
            fst (spotifyFetch p pe endpoint m jsonBody w)
              = (case body_json r of Some j \<Rightarrow> Inr j | None \<Rightarrow> Inl BodyUnreadable))
       \<and> (\<forall>st txt st' txt'.
            st \<le> 2 ^ 53 \<and> st' \<le> 2 ^ 53
            \<and> ''Spotify API error: '' @ show_nat st @ '' '' @ txt
                = ''Spotify API error: '' @ show_nat st' @ '' '' @ txt'
            \<longrightarrow> st = st' \<and> txt = txt')"
proof -
  have "fst (spotifyFetch p pe endpoint m jsonBody w)
      = (if \<not> ok r then Inl (UpstreamApiError (status r) (text_or_empty r))
         else (case body_json r of Some j \<Rightarrow> Inr j | None \<Rightarrow> Inl BodyUnreadable))"
    using assms by (simp add: spotifyFetch_def fetch_def split: option.splits)
  moreover have "\<forall>st txt st' txt'.
            st \<le> 2 ^ 53 \<and> st' \<le> 2 ^ 53
            \<and> ''Spotify API error: '' @ show_nat st @ '' '' @ txt
                = ''Spotify API error: '' @ show_nat st' @ '' '' @ txt'
            \<longrightarrow> st = st' \<and> txt = txt'"
    using status_line_inj [of _ _ "''Spotify API error: ''"] by blast
  ultimately show ?thesis
    by (simp only: ok_def UpstreamApiError_def text_or_empty_def if_not_P if_P simp_thms split: if_splits)
qed

theorem spotifyFetch_outcome_witness:
  "fst (spotifyFetch (demo_platform 1000 (json_reply 404 JNull)) no_env ''v1/me'' ''GET'' JUndefined
          (demo_world (JStr ''tok'') (Fin 0)))
     = Inl (Error ''Spotify API error: 404 body'')
   \<and> fst (spotifyFetch (demo_platform 1000 (json_reply 200 (JObj [(''id'', JStr ''me'')]))) no_env
          ''v1/me'' ''GET'' JUndefined (demo_world (JStr ''tok'') (Fin 0)))
     = Inr (JObj [(''id'', JStr ''me'')])
   \<and> fst (spotifyFetch (demo_platform 1000 (empty_reply 204)) no_env
          ''v1/me'' ''GET'' JUndefined (demo_world (JStr ''tok'') (Fin 0)))
     = Inl BodyUnreadable"
proof -
  have no: "\<not> refresh_secret_complete no_env"
    by (simp add: refresh_secret_complete_def configured_def no_env_def)
  have r: "refreshAccessTokenIfNeeded (demo_platform 1000 rp) no_env
             (demo_world (JStr ''tok'') (Fin 0))
      = (Inr (JStr ''tok''), (demo_world (JStr ''tok'') (Fin 0))\<lparr>clock_reads := 1\<rparr>)" for rp
    by (simp add: refresh_without_secret [OF no] demo_world_def)
  have d: "show_nat 404 = ''404''"
    by (simp add: show_nat_def decimal.simps digit_char_def)
  note failure = spotifyFetch_outcome [OF r [of "json_reply 404 JNull"], of
        "\<lparr>status = 404, body_text = Some ''body'', body_json = Some JNull\<rparr>"
        "''v1/me''" "''GET''" JUndefined, THEN conjunct1]
  note success = spotifyFetch_outcome [OF r [of "json_reply 200 (JObj [(''id'', JStr ''me'')])"], of
        "\<lparr>status = 200, body_text = Some ''body'',
          body_json = Some (JObj [(''id'', JStr ''me'')])\<rparr>"
        "''v1/me''" "''GET''" JUndefined, THEN conjunct2, THEN conjunct1]
  note empty = spotifyFetch_outcome [OF r [of "empty_reply 204"], of
        "\<lparr>status = 204, body_text = Some [], body_json = None\<rparr>"
        "''v1/me''" "''GET''" JUndefined, THEN conjunct2, THEN conjunct1]
  show ?thesis
    using failure success empty
    by (simp add: demo_world_def demo_platform_def json_reply_def empty_reply_def d)
qed

section \<open>Properties of the tool handlers\<close>

lemma empty_uris_not_accepted:
  assumes "get_prop_opt args ''uris'' = JArr []"
  shows "\<not> shape_accepts add_to_playlist_schema args"
proof (cases args)
  case (JObj kvs)
  have "\<not> zod_accepts (ZArray ZString 1) (get_prop_opt args ''uris'')"
    using assms by simp
  then show ?thesis
    using JObj by (simp add: shape_accepts_def add_to_playlist_schema_def)
qed (simp_all add: shape_accepts_def)

text \<open>
  Claim C7. A call of \<open>spotify_add_to_playlist\<close> whose \<open>uris\<close> argument is the empty
  list is answered with \<open>InvalidInput\<close>; the state, and with it the list of requests
  issued, is unchanged.
\<close>

theorem empty_uris_rejected:
  assumes "get_prop_opt args ''uris'' = JArr []"
  shows "call_add_to_playlist p pe args w = (Inl InvalidInput, w)"
  using empty_uris_not_accepted [OF assms] by (simp add: call_add_to_playlist_def)

theorem empty_uris_rejected_witness:
  "call_add_to_playlist (demo_platform 1000 (json_reply 201 (JObj []))) demo_env
     (JObj [(''playlistId'', JStr ''p1''), (''uris'', JArr [])]) (demo_world (JStr ''tok'') (Fin 0))
   = (Inl InvalidInput, demo_world (JStr ''tok'') (Fin 0))"
  using empty_uris_rejected [of "JObj [(''playlistId'', JStr ''p1''), (''uris'', JArr [])]"
      "demo_platform 1000 (json_reply 201 (JObj []))" demo_env "demo_world (JStr ''tok'') (Fin 0)"]
  by (simp add: get_prop_opt_def)

text \<open>
  Claim C8. When the search request succeeds and the body has no track items
  (\<open>tracks.items\<close> is the empty list, or there is none), \<open>spotify_search_tracks\<close> returns
  one text block, "No tracks found. Try a different query or filters.", and no error.
\<close>

theorem search_no_items_fallback:
  assumes "spotifyFetch p pe
             (''v1/search?type=track&limit='' @ show_int limit @ ''&q='' @ encodeURIComponent p q)
             ''GET'' JUndefined w = (Inr data, w1)"
    and "data \<noteq> JNull" and "data \<noteq> JUndefined"
    and "get_prop_opt (get_prop_opt data ''tracks'') ''items'' = JArr []
         \<or> get_prop_opt (get_prop_opt data ''tracks'') ''items'' = JUndefined
         \<or> get_prop_opt (get_prop_opt data ''tracks'') ''items'' = JNull"
  shows "spotify_search_tracks p pe q limit w
           = (Inr [TextBlock ''No tracks found. Try a different query or filters.''], w1)"
proof -
  have "get_prop data ''tracks'' = Inr (get_prop_opt data ''tracks'')"
    using assms(2,3) by (cases data) (auto simp: get_prop_opt_def split: option.splits)
  moreover have "nullish (get_prop_opt (get_prop_opt data ''tracks'') ''items'') (JArr [])
                   = JArr []"
    using assms(4) by (auto simp: nullish_def)
  ultimately show ?thesis
    using assms(1) by (simp add: spotify_search_tracks_def)
qed

theorem search_no_items_fallback_witness:
  "spotify_search_tracks (demo_platform 1000 (json_reply 200 no_tracks_body)) no_env ''zzzz'' 10
     (demo_world (JStr ''tok'') (Fin 0))
   = (Inr [TextBlock ''No tracks found. Try a different query or filters.''],
      \<lparr>ACCESS_TOKEN = JStr ''tok'', ACCESS_TOKEN_EXP = Fin 0,
       sent = [api_request (JStr ''tok'') ''v1/search?type=track&limit=10&q=zzzz'' ''GET''
                 JUndefined],
       clock_reads = 1\<rparr>)"
proof -
  have f: "spotifyFetch (demo_platform 1000 (json_reply 200 no_tracks_body)) no_env
      (''v1/search?type=track&limit='' @ show_int 10 @ ''&q=''
        @ encodeURIComponent (demo_platform 1000 (json_reply 200 no_tracks_body)) ''zzzz'')
      ''GET'' JUndefined (demo_world (JStr ''tok'') (Fin 0))
    = (Inr no_tracks_body,
       \<lparr>ACCESS_TOKEN = JStr ''tok'', ACCESS_TOKEN_EXP = Fin 0,
        sent = [api_request (JStr ''tok'') ''v1/search?type=track&limit=10&q=zzzz'' ''GET''
                  JUndefined],
        clock_reads = 1\<rparr>)"
    by (simp add: spotifyFetch_def refreshAccessTokenIfNeeded_def Date_now_def cache_is_fresh_def
        no_env_def env_def fetch_def demo_world_def demo_platform_def json_reply_def ok_def
        show_int_def show_nat_def decimal.simps digit_char_def)
  show ?thesis
    using search_no_items_fallback [OF f] by (simp add: get_prop_opt_def no_tracks_body_def)
qed

section \<open>Properties of the setup flow\<close>











text \<open>
  Claim C6, as stated, at the path \<open>/callbackx\<close>: it is not the path \<open>/callback\<close>, yet
  the request is not answered with "not found"; it is handled as a callback without a
  code, answered with status 400, and schedules the exit of the flow.
\<close>

theorem other_path_with_callback_prefix:
  "request_path ''/callbackx'' \<noteq> ''/callback''
   \<and> on_request demo_config demo_setup_platform
        \<lparr>req_url = Some ''/callbackx'', searchParams = Some []\<rparr> awaiting
     = (Answer 400 [] ''Bad request'', awaiting\<lparr>phase := Closing 1\<rparr>)
   \<and> on_request demo_config demo_setup_platform
        \<lparr>req_url = Some ''/callbackx'', searchParams = Some []\<rparr> awaiting
     \<noteq> (Answer 404 [] ''Not found'', awaiting)"
  by (simp add: request_path_def on_request_def startsWith_def present_def shutdown_def
      awaiting_def)

text \<open>
  Claim C6, amended. The handler tells requests apart by the prefix of the URL: a request
  whose URL does not begin with \<open>/callback\<close> (or that has no URL) is answered with status
  404 "Not found", and the state of the flow is unchanged.
\<close>

theorem other_prefix_not_found:
  assumes "\<And>u. req_url rq = Some u \<Longrightarrow> \<not> startsWith u ''/callback''"
  shows "on_request cfg pf rq s = (Answer 404 [] ''Not found'', s)"
  using assms by (auto simp: on_request_def split: option.splits)

theorem other_prefix_not_found_witness:
  "on_request demo_config demo_setup_platform
     \<lparr>req_url = Some ''/favicon.ico'', searchParams = Some []\<rparr> awaiting
   = (Answer 404 [] ''Not found'', awaiting)"
  using other_prefix_not_found [of "\<lparr>req_url = Some ''/favicon.ico'', searchParams = Some []\<rparr>"
      demo_config demo_setup_platform awaiting]
  by (simp add: startsWith_def)

end
